theory Spec2Isabelle
  imports Complex_Main
begin

section \<open>Soil-temperature lookup: data model\<close>

text \<open>
  The development embeds \<^verbatim>\<open>soil_temp_lookup.py\<close>: the dataset cache
  (\<^verbatim>\<open>_get_dataset\<close>), the memoised geocoder (\<^verbatim>\<open>_geocode\<close>), the point lookup
  (\<^verbatim>\<open>get_soil_temperature\<close>) and the bounding-box lookup
  (\<^verbatim>\<open>get_soil_temperatures_in_bbox\<close>).

  Python names that start with an underscore lose it (\<open>get_dataset\<close>, \<open>geocode\<close>).
  Every function takes the process state and returns it updated; a raised exception
  is the \<open>Inl\<close> branch of the result.
\<close>

subsection \<open>Exceptions\<close>

datatype error =
    RasterioIOError string
      \<comment> \<open>raised by \<^verbatim>\<open>rasterio.open\<close>, for instance for a path that does not exist\<close>
  | RuntimeError_no_CRS
      \<comment> \<open>\<^verbatim>\<open>RuntimeError("Raster has no CRS ... cannot locate coordinates.")\<close>, line 60\<close>
  | RuntimeError_geopy_required
      \<comment> \<open>\<^verbatim>\<open>RuntimeError("geopy is required for address lookup. ...")\<close>, line 90\<close>
  | ValueError_address_not_found string
      \<comment> \<open>\<^verbatim>\<open>ValueError(f"Address not found: {address!r}")\<close>, line 97\<close>
  | WindowError
      \<comment> \<open>raised by \<^verbatim>\<open>rasterio.windows\<close>\<close>
  | TypeError_fill_value
      \<comment> \<open>\<^verbatim>\<open>TypeError("Cannot convert fill_value nan to dtype ...")\<close>, raised by
         \<^verbatim>\<open>MaskedArray.filled\<close>\<close>
  | IndexError
  | KeyError
  | LibraryError string
      \<comment> \<open>any other exception that a library call lets escape\<close>

subsection \<open>Floating-point values\<close>

text \<open>
  A Python or NumPy float is a finite number, an infinity or NaN. Finite values are
  reals here: comparisons of finite doubles are exact, and the rounding of
  arithmetic is not modelled.
\<close>

datatype npfloat = Finite real | PosInf | NegInf | NaN

fun np_isnan :: "npfloat \<Rightarrow> bool" where
  "np_isnan NaN = True"
| "np_isnan _ = False"

text \<open>The comparison \<^verbatim>\<open>a < b\<close> of two floats; every comparison with NaN is false.\<close>

fun float_less :: "npfloat \<Rightarrow> npfloat \<Rightarrow> bool" where
  "float_less NaN _ = False"
| "float_less _ NaN = False"
| "float_less (Finite x) (Finite y) = (x < y)"
| "float_less (Finite _) PosInf = True"
| "float_less (Finite _) NegInf = False"
| "float_less PosInf _ = False"
| "float_less NegInf NegInf = False"
| "float_less NegInf _ = True"

definition float_greater :: "npfloat \<Rightarrow> npfloat \<Rightarrow> bool" where
  "float_greater a b = float_less b a"

text \<open>
  \<^verbatim>\<open>numpy.isclose(a, b)\<close> with its default tolerances \<^verbatim>\<open>rtol=1e-05\<close>,
  \<^verbatim>\<open>atol=1e-08\<close> and \<^verbatim>\<open>equal_nan=False\<close>, as NumPy documents it: finite values are
  close when \<^verbatim>\<open>abs(a - b) <= atol + rtol * abs(b)\<close>, infinities are close to
  themselves only, NaN is close to nothing. NumPy is a library outside the
  repository; the formula is evaluated over the reals.
\<close>

definition rtol :: real where
  "rtol = 1 / 100000"

definition atol :: real where
  "atol = 1 / 100000000"

fun np_isclose :: "npfloat \<Rightarrow> npfloat \<Rightarrow> bool" where
  "np_isclose (Finite a) (Finite b) = (\<bar>a - b\<bar> \<le> atol + rtol * \<bar>b\<bar>)"
| "np_isclose PosInf PosInf = True"
| "np_isclose NegInf NegInf = True"
| "np_isclose _ _ = False"

subsection \<open>Rasters, windows and arrays\<close>

datatype crs = CRS (to_epsg: "int option")
  \<comment> \<open>a coordinate reference system; \<^verbatim>\<open>to_epsg()\<close> is \<^verbatim>\<open>None\<close> when it has no EPSG code\<close>

definition EPSG_4326 :: crs where
  "EPSG_4326 = CRS (Some 4326)"

record bounding_box =
  left :: npfloat
  bottom :: npfloat
  right :: npfloat
  top :: npfloat

text \<open>
  A pixel window after \<^verbatim>\<open>round_offsets().round_lengths()\<close>: offsets and lengths are
  Python integers.
\<close>

record window =
  col_off :: int
  row_off :: int
  win_width :: int
  win_height :: int

definition Window :: "int \<Rightarrow> int \<Rightarrow> int \<Rightarrow> int \<Rightarrow> window" where
  "Window c r w h = \<lparr>col_off = c, row_off = r, win_width = w, win_height = h\<rparr>"

text \<open>
  The element type of a raster band: a floating-point type (\<^verbatim>\<open>float32\<close>,
  \<^verbatim>\<open>float64\<close>) or an integer type (\<^verbatim>\<open>int16\<close>, \<^verbatim>\<open>uint8\<close>, ...). The pixels of an integer
  band are finite whole numbers.
\<close>

datatype np_dtype = Floating | Integer

text \<open>
  A masked 2-D array as \<^verbatim>\<open>read(..., masked=True)\<close> returns it: its element type and
  its cells row by row. Each cell carries its value and its mask bit (\<open>True\<close> for a
  nodata pixel), so data and mask always have the same shape; the mask is a full
  array, never \<^verbatim>\<open>nomask\<close>.
\<close>

record masked_array =
  dtype :: np_dtype
  cells :: "(npfloat \<times> bool) list list"

type_synonym ndarray = "npfloat list list"

type_synonym affine = "real \<times> real \<times> real \<times> real \<times> real \<times> real"

text \<open>
  An open dataset object, \<^verbatim>\<open>rasterio.DatasetReader\<close> or \<^verbatim>\<open>WarpedVRT\<close>: the attributes
  and methods the module uses. \<open>obj_id\<close> is the identity of the Python object.
  \<open>sample\<close> yields one array of band values for each point it is given;
  \<open>read\<close> is \<^verbatim>\<open>read(1, window=..., masked=True)\<close>.
\<close>

record dataset =
  obj_id :: nat
  crs :: "crs option"
  nodata :: "npfloat option"
  bounds :: bounding_box
  transform :: affine
  width :: int
  height :: int
  sample :: "(npfloat \<times> npfloat) list \<Rightarrow> npfloat list list"
  read :: "window \<Rightarrow> error + masked_array"

subsection \<open>The world outside the module\<close>

text \<open>
  The geocoding client: \<^verbatim>\<open>geocode(address, timeout=5)\<close> raises, finds nothing
  (\<^verbatim>\<open>None\<close>) or returns a location (latitude, longitude).
\<close>

type_synonym geolocator = "string \<Rightarrow> error + (npfloat \<times> npfloat) option"

text \<open>
  Everything the module takes from its libraries and its environment:
  \<^item> \<open>resolve\<close> is \<^verbatim>\<open>str(Path(path).expanduser().resolve())\<close>;
  \<^item> \<open>rasterio_open\<close> opens the file at a normalised path, or raises;
  \<^item> \<open>reproject\<close> gives the attributes of the warped view of a dataset;
  \<^item> \<open>Nominatim\<close> is the binding of that module-level name: \<open>None\<close> when geopy is not
    installed, otherwise the constructor (taking the user agent);
  \<^item> \<open>from_bounds\<close> is \<^verbatim>\<open>from_bounds(west, south, east, north,
    transform=...).round_offsets().round_lengths()\<close>; it may raise.
\<close>

record world =
  resolve :: "string \<Rightarrow> string"
  rasterio_open :: "string \<Rightarrow> error + dataset"
  reproject :: "dataset \<Rightarrow> dataset"
  Nominatim :: "(string \<Rightarrow> geolocator) option"
  from_bounds :: "npfloat \<Rightarrow> npfloat \<Rightarrow> npfloat \<Rightarrow> npfloat \<Rightarrow> affine \<Rightarrow> error + window"

subsection \<open>Process state\<close>

text \<open>
  \<^item> \<open>dataset_cache\<close> is \<^verbatim>\<open>_get_dataset._cache\<close>;
  \<^item> \<open>geocode_cache\<close> is the store of \<^verbatim>\<open>lru_cache(maxsize=2048)\<close> around
    \<^verbatim>\<open>_geocode\<close>, most recently used first;
  \<^item> \<open>GEOLOCATOR_CACHE\<close> is \<^verbatim>\<open>_GEOLOCATOR_CACHE\<close>;
  \<^item> \<open>next_obj\<close> numbers the dataset objects created so far;
  \<^item> \<open>opens\<close> counts the calls of \<^verbatim>\<open>rasterio.open\<close>;
  \<^item> \<open>read_log\<close> records every windowed read: the object read and the window, latest
    first.
\<close>

record state =
  dataset_cache :: "string \<rightharpoonup> dataset"
  geocode_cache :: "(string \<times> (npfloat \<times> npfloat)) list"
  GEOLOCATOR_CACHE :: "string \<rightharpoonup> geolocator"
  next_obj :: nat
  opens :: nat
  read_log :: "(nat \<times> window) list"

definition initial_state :: state where
  "initial_state =
     \<lparr>dataset_cache = Map.empty, geocode_cache = [], GEOLOCATOR_CACHE = Map.empty,
      next_obj = 0, opens = 0, read_log = []\<rparr>"

section \<open>The dataset cache\<close>

definition cache_get :: "state \<Rightarrow> string \<Rightarrow> dataset option" where
  "cache_get s key = dataset_cache s key"

definition cache_set :: "string \<Rightarrow> dataset \<Rightarrow> state \<Rightarrow> state" where
  "cache_set key v s = s\<lparr>dataset_cache := (dataset_cache s)(key \<mapsto> v)\<rparr>"

text \<open>
  \<^verbatim>\<open>WarpedVRT(base, crs=c)\<close>: a new object, number \<open>i\<close>, that shows \<open>base\<close>
  reprojected and reports \<open>c\<close> as its coordinate reference system.
\<close>

definition WarpedVRT :: "world \<Rightarrow> dataset \<Rightarrow> crs \<Rightarrow> nat \<Rightarrow> dataset" where
  "WarpedVRT w base c i = (reproject w base)\<lparr>obj_id := i, crs := Some c\<rparr>"

definition get_dataset :: "world \<Rightarrow> string \<Rightarrow> state \<Rightarrow> (error + dataset) \<times> state" where
  "get_dataset w path s =
     (let p = resolve w path in
      case cache_get s p of
        Some ds \<Rightarrow> (Inr ds, s)
      | None \<Rightarrow>
          (case rasterio_open w p of
             Inl e \<Rightarrow> (Inl e, s\<lparr>opens := Suc (opens s)\<rparr>)
           | Inr opened \<Rightarrow>
               (let base = opened\<lparr>obj_id := next_obj s\<rparr>;
                    s1 = s\<lparr>opens := Suc (opens s), next_obj := Suc (next_obj s)\<rparr>
                in case crs base of
                     None \<Rightarrow> (Inl RuntimeError_no_CRS, s1)
                   | Some c \<Rightarrow>
                       if to_epsg c \<noteq> Some 4326
                       then (let vrt = WarpedVRT w base EPSG_4326 (next_obj s1);
                                 s2 = s1\<lparr>next_obj := Suc (next_obj s1)\<rparr>
                             in (Inr vrt, cache_set p vrt s2))
                       else (Inr base, cache_set p base s1))))"

section \<open>Geocoding\<close>

text \<open>The body of \<^verbatim>\<open>_geocode\<close>, lines 89 to 98.\<close>

definition geocode_body ::
  "world \<Rightarrow> string \<Rightarrow> state \<Rightarrow> (error + npfloat \<times> npfloat) \<times> state" where
  "geocode_body w address s =
     (case Nominatim w of
        None \<Rightarrow> (Inl RuntimeError_geopy_required, s)
      | Some mk \<Rightarrow>
          (let s1 = (if GEOLOCATOR_CACHE s ''nominatim'' = None
                     then s\<lparr>GEOLOCATOR_CACHE :=
                             (GEOLOCATOR_CACHE s)(''nominatim'' \<mapsto> mk ''soil-temp-lookup'')\<rparr>
                     else s)
           in case GEOLOCATOR_CACHE s1 ''nominatim'' of
                None \<Rightarrow> (Inl KeyError, s1)
              | Some g \<Rightarrow>
                  (case g address of
                     Inl e \<Rightarrow> (Inl e, s1)
                   | Inr None \<Rightarrow> (Inl (ValueError_address_not_found address), s1)
                   | Inr (Some loc) \<Rightarrow> (Inr loc, s1))))"

text \<open>
  \<^verbatim>\<open>@lru_cache(maxsize=2048)\<close>: a hit returns the stored result and makes the entry
  the most recent one; a miss runs the body, stores a returned result (dropping the
  least recently used entry beyond 2048) and stores nothing when the body raises.
\<close>

definition maxsize :: nat where
  "maxsize = 2048"

definition geocode ::
  "world \<Rightarrow> string \<Rightarrow> state \<Rightarrow> (error + npfloat \<times> npfloat) \<times> state" where
  "geocode w address s =
     (case map_of (geocode_cache s) address of
        Some loc \<Rightarrow>
          (Inr loc,
           s\<lparr>geocode_cache :=
               (address, loc) # filter (\<lambda>e. fst e \<noteq> address) (geocode_cache s)\<rparr>)
      | None \<Rightarrow>
          (case geocode_body w address s of
             (Inl e, s1) \<Rightarrow> (Inl e, s1)
           | (Inr loc, s1) \<Rightarrow>
               (Inr loc,
                s1\<lparr>geocode_cache := take maxsize ((address, loc) # geocode_cache s1)\<rparr>)))"

section \<open>Point lookup\<close>

datatype query = Address string | Coord npfloat npfloat
  \<comment> \<open>\<^verbatim>\<open>str | Tuple[float, float]\<close>; the pair is (lat, lon)\<close>

text \<open>Lines 127 to 130: the coordinates of the query.\<close>

definition locate :: "world \<Rightarrow> query \<Rightarrow> state \<Rightarrow> (error + npfloat \<times> npfloat) \<times> state" where
  "locate w q s = (case q of Address a \<Rightarrow> geocode w a s | Coord lat lon \<Rightarrow> (Inr (lat, lon), s))"

text \<open>Lines 141 to 146: the nodata policy applied to a sampled value.\<close>

definition nodata_policy :: "dataset \<Rightarrow> npfloat \<Rightarrow> npfloat option" where
  "nodata_policy ds v =
     (if nodata ds \<noteq> None \<and> np_isclose v (the (nodata ds)) then None
      else if np_isnan v then None
      else Some v)"

definition get_soil_temperature ::
  "world \<Rightarrow> query \<Rightarrow> string \<Rightarrow> state \<Rightarrow> (error + npfloat option) \<times> state" where
  "get_soil_temperature w address_or_coord tif_path s =
     (case locate w address_or_coord s of
        (Inl e, s0) \<Rightarrow> (Inl e, s0)
      | (Inr (lat, lon), s0) \<Rightarrow>
          (case get_dataset w tif_path s0 of
             (Inl e, s1) \<Rightarrow> (Inl e, s1)
           | (Inr ds, s1) \<Rightarrow>
               (case sample ds [(lon, lat)] of
                  [] \<Rightarrow> (Inr None, s1)
                | arr # _ \<Rightarrow>
                    (case arr of
                       [] \<Rightarrow> (Inl IndexError, s1)
                     | v # _ \<Rightarrow> (Inr (nodata_policy ds v), s1)))))"

section \<open>Bounding-box lookup\<close>

text \<open>
  \<^verbatim>\<open>Window.intersection\<close> of rasterio, a library outside the repository, modelled
  from its documentation: the innermost extent of the two windows, and a
  \<^verbatim>\<open>WindowError\<close> when the windows do not intersect.
\<close>

definition compute_intersection :: "window \<Rightarrow> window \<Rightarrow> window" where
  "compute_intersection w1 w2 =
     (let c = max (col_off w1) (col_off w2);
          r = max (row_off w1) (row_off w2)
      in Window c r
           (min (col_off w1 + win_width w1) (col_off w2 + win_width w2) - c)
           (min (row_off w1 + win_height w1) (row_off w2 + win_height w2) - r))"

definition intersection :: "window \<Rightarrow> window \<Rightarrow> error + window" where
  "intersection w1 w2 =
     (let c = compute_intersection w1 w2
      in if 0 < win_width c \<and> 0 < win_height c then Inr c else Inl WindowError)"

definition mask_all :: "masked_array \<Rightarrow> bool" where
  "mask_all a = list_all (list_all snd) (cells a)"

text \<open>
  \<^verbatim>\<open>MaskedArray.filled(fill_value)\<close> of NumPy, a library outside the repository,
  modelled from its documentation. The fill value is first converted to the element
  type of the array: a floating-point array takes any float; an integer array takes
  a finite value, cut to a whole number, and NaN or an infinity makes \<^verbatim>\<open>filled\<close>
  raise \<^verbatim>\<open>TypeError\<close>, whether or not a cell is masked. Then every masked cell is
  replaced by the converted value.
\<close>

definition check_fill_value :: "np_dtype \<Rightarrow> npfloat \<Rightarrow> error + npfloat" where
  "check_fill_value t fill_value =
     (case t of
        Floating \<Rightarrow> Inr fill_value
      | Integer \<Rightarrow>
          (case fill_value of
             Finite x \<Rightarrow> Inr (Finite (of_int (if 0 \<le> x then \<lfloor>x\<rfloor> else \<lceil>x\<rceil>)))
           | _ \<Rightarrow> Inl TypeError_fill_value))"

definition filled :: "masked_array \<Rightarrow> npfloat \<Rightarrow> error + ndarray" where
  "filled a fill_value =
     (case check_fill_value (dtype a) fill_value of
        Inl e \<Rightarrow> Inl e
      | Inr v \<Rightarrow> Inr (map (map (\<lambda>cell. if snd cell then v else fst cell)) (cells a)))"

text \<open>
  \<^verbatim>\<open>astype(float)\<close> on the filled array: the values are kept, so it is the identity
  on \<open>ndarray\<close>. It runs after \<^verbatim>\<open>filled\<close> (line 215), on its result.
\<close>

definition astype_float :: "ndarray \<Rightarrow> ndarray" where
  "astype_float a = a"

datatype array_result = MaskedArray masked_array | NdArray ndarray

type_synonym bbox = "npfloat \<times> npfloat \<times> npfloat \<times> npfloat"

definition get_soil_temperatures_in_bbox ::
  "world \<Rightarrow> bbox \<Rightarrow> string \<Rightarrow> bool \<Rightarrow> state \<Rightarrow> (error + array_result option) \<times> state" where
  "get_soil_temperatures_in_bbox w bbox tif_path masked s =
     (case bbox of (south, west, north, east) \<Rightarrow>
        (case get_dataset w tif_path s of
           (Inl e, s1) \<Rightarrow> (Inl e, s1)
         | (Inr ds, s1) \<Rightarrow>
             if float_less east (left (bounds ds)) \<or> float_greater west (right (bounds ds)) \<or>
                float_less north (bottom (bounds ds)) \<or> float_greater south (top (bounds ds))
             then (Inr None, s1)
             else
               (case from_bounds w west south east north (transform ds) of
                  Inl e \<Rightarrow> (Inl e, s1)
                | Inr window0 \<Rightarrow>
                    (case intersection window0 (Window 0 0 (width ds) (height ds)) of
                       Inl e \<Rightarrow> (Inl e, s1)
                     | Inr win \<Rightarrow>
                         if win_width win \<le> 0 \<or> win_height win \<le> 0 then (Inr None, s1)
                         else
                           (let s2 = s1\<lparr>read_log := (obj_id ds, win) # read_log s1\<rparr>
                            in case read ds win of
                                 Inl e \<Rightarrow> (Inl e, s2)
                               | Inr data \<Rightarrow>
                                   if mask_all data then (Inr None, s2)
                                   else if masked then (Inr (Some (MaskedArray data)), s2)
                                   else
                                     (case filled data NaN of
                                        Inl e \<Rightarrow> (Inl e, s2)
                                      | Inr arr \<Rightarrow>
                                          (Inr (Some (NdArray (astype_float arr))), s2)))))))"

section \<open>Sequences of calls\<close>

text \<open>
  A process is a sequence of calls of the module's functions, each made in the world
  as it is at that moment (files may appear, change or vanish between calls).
\<close>

datatype call =
    Get_dataset string
  | Geocode string
  | Get_soil_temperature query string
  | Get_soil_temperatures_in_bbox bbox string bool

fun exec :: "world \<Rightarrow> call \<Rightarrow> state \<Rightarrow> state" where
  "exec w (Get_dataset path) s = snd (get_dataset w path s)"
| "exec w (Geocode address) s = snd (geocode w address s)"
| "exec w (Get_soil_temperature q path) s = snd (get_soil_temperature w q path s)"
| "exec w (Get_soil_temperatures_in_bbox b path m) s =
     snd (get_soil_temperatures_in_bbox w b path m s)"

fun run :: "(world \<times> call) list \<Rightarrow> state \<Rightarrow> state" where
  "run [] s = s"
| "run ((w, c) # cs) s = run cs (exec w c s)"

definition geographic :: "dataset \<Rightarrow> bool" where
  "geographic ds = (case crs ds of None \<Rightarrow> False | Some c \<Rightarrow> to_epsg c = Some 4326)"

section \<open>A concrete world\<close>

text \<open>
  The example of the specification: a raster with bounds 0 to 10 degrees in both
  axes, one degree per pixel (10 by 10 pixels, north up), nodata -9999, and the
  value 15.5 at (5.5 N, 5.5 E). Every other pixel holds 7, except the pixels of
  column 0, which are nodata. The process runs in \<^verbatim>\<open>/home/user\<close>, which is also the
  home directory. There \<^verbatim>\<open>soil.tif\<close> is this raster with a floating-point band,
  \<^verbatim>\<open>int16.tif\<close> the same raster with an integer band, \<^verbatim>\<open>utm.tif\<close> has another CRS and
  \<^verbatim>\<open>nocrs.tif\<close> has none.
\<close>

fun demo_pixel :: "npfloat \<Rightarrow> npfloat \<Rightarrow> npfloat" where
  "demo_pixel (Finite x) (Finite y) =
     (if x = 11 / 2 \<and> y = 11 / 2 then Finite (31 / 2)
      else if 1 \<le> x \<and> x \<le> 10 \<and> 0 \<le> y \<and> y \<le> 10 then Finite 7
      else Finite (- 9999))"
| "demo_pixel _ _ = Finite (- 9999)"

definition demo_sample :: "(npfloat \<times> npfloat) list \<Rightarrow> npfloat list list" where
  "demo_sample pts = map (\<lambda>(x, y). [demo_pixel x y]) pts"

definition demo_cell :: "int \<Rightarrow> int \<Rightarrow> npfloat \<times> bool" where
  "demo_cell r c = (if c = 0 then (Finite (- 9999), True) else (Finite 7, False))"

definition demo_read :: "np_dtype \<Rightarrow> window \<Rightarrow> error + masked_array" where
  "demo_read t win =
     Inr \<lparr>dtype = t,
          cells = map (\<lambda>r. map (demo_cell r) [col_off win .. col_off win + win_width win - 1])
                    [row_off win .. row_off win + win_height win - 1]\<rparr>"

definition demo_raster :: dataset where
  "demo_raster =
     \<lparr>obj_id = 0, crs = Some EPSG_4326, nodata = Some (Finite (- 9999)),
      bounds = \<lparr>left = Finite 0, bottom = Finite 0, right = Finite 10, top = Finite 10\<rparr>,
      transform = (1, 0, 0, 0, - 1, 10), width = 10, height = 10,
      sample = demo_sample, read = demo_read Floating\<rparr>"

definition demo_open :: "string \<Rightarrow> error + dataset" where
  "demo_open p =
     (if p = ''/home/user/soil.tif'' then Inr demo_raster
      else if p = ''/home/user/utm.tif'' then Inr (demo_raster\<lparr>crs := Some (CRS (Some 32633))\<rparr>)
      else if p = ''/home/user/nocrs.tif'' then Inr (demo_raster\<lparr>crs := None\<rparr>)
      else if p = ''/home/user/int16.tif'' then Inr (demo_raster\<lparr>read := demo_read Integer\<rparr>)
      else Inl (RasterioIOError p))"

fun demo_resolve :: "string \<Rightarrow> string" where
  "demo_resolve [] = ''/home/user''"
| "demo_resolve (c # cs) =
     (if c = CHR ''/'' then c # cs
      else if c = CHR ''~'' then ''/home/user'' @ cs
      else ''/home/user/'' @ c # cs)"

text \<open>
  \<^verbatim>\<open>from_bounds\<close> for a north-up transform \<open>(a, 0, c, 0, e, f)\<close>, offsets and
  lengths rounded down; bounds that are not finite make the rounding raise.
\<close>

fun demo_from_bounds ::
  "npfloat \<Rightarrow> npfloat \<Rightarrow> npfloat \<Rightarrow> npfloat \<Rightarrow> affine \<Rightarrow> error + window" where
  "demo_from_bounds (Finite west) (Finite south) (Finite east) (Finite north) (a, b, c, d, e, f) =
     Inr (Window \<lfloor>(west - c) / a\<rfloor> \<lfloor>(north - f) / e\<rfloor>
            \<lfloor>(east - west) / a\<rfloor> \<lfloor>(south - north) / e\<rfloor>)"
| "demo_from_bounds _ _ _ _ _ = Inl (LibraryError ''ValueError'')"

definition demo_geolocator :: "string \<Rightarrow> geolocator" where
  "demo_geolocator user_agent address =
     (if address = ''Lagos, Nigeria'' then Inr (Some (Finite (13 / 2), Finite (17 / 5)))
      else if address = ''offline'' then Inl (LibraryError ''GeocoderTimedOut'')
      else Inr None)"

definition demo_world :: world where
  "demo_world =
     \<lparr>resolve = demo_resolve, rasterio_open = demo_open, reproject = (\<lambda>ds. ds),
      Nominatim = Some demo_geolocator, from_bounds = demo_from_bounds\<rparr>"

definition demo_world_no_geopy :: world where
  "demo_world_no_geopy = demo_world\<lparr>Nominatim := None\<rparr>"

text \<open>The state of a fresh process after it has acquired \<^verbatim>\<open>soil.tif\<close>.\<close>

definition soil_opened :: state where
  "soil_opened =
     initial_state\<lparr>dataset_cache := [''/home/user/soil.tif'' \<mapsto> demo_raster],
       next_obj := 1, opens := 1\<rparr>"

text \<open>The state of a fresh process after it has acquired \<^verbatim>\<open>int16.tif\<close>.\<close>

definition int16_opened :: state where
  "int16_opened =
     initial_state\<lparr>dataset_cache :=
         [''/home/user/int16.tif'' \<mapsto> demo_raster\<lparr>read := demo_read Integer\<rparr>],
       next_obj := 1, opens := 1\<rparr>"

text \<open>The handle that a fresh process stores for \<^verbatim>\<open>utm.tif\<close>: a warped view.\<close>

definition demo_utm_vrt :: dataset where
  "demo_utm_vrt =
     WarpedVRT demo_world (demo_raster\<lparr>obj_id := 0, crs := Some (CRS (Some 32633))\<rparr>) EPSG_4326 1"

section \<open>The invariant of the dataset cache\<close>

text \<open>
  Every stored handle is geographic and is an object created earlier, and different
  keys hold different objects.
\<close>

definition cache_inv :: "state \<Rightarrow> bool" where
  "cache_inv s \<longleftrightarrow>
     (\<forall>p ds. dataset_cache s p = Some ds \<longrightarrow> geographic ds \<and> obj_id ds < next_obj s) \<and>
     (\<forall>p q ds ds'. dataset_cache s p = Some ds \<and> dataset_cache s q = Some ds' \<and> p \<noteq> q
        \<longrightarrow> obj_id ds \<noteq> obj_id ds')"

section \<open>Evaluating the concrete world\<close>

lemmas demo_defs =
  demo_world_def demo_world_no_geopy_def demo_raster_def demo_open_def demo_sample_def
  demo_read_def demo_cell_def demo_geolocator_def EPSG_4326_def Window_def initial_state_def

lemma demo_get_dataset_soil:
  "get_dataset demo_world ''soil.tif'' initial_state = (Inr demo_raster, soil_opened)"
  by (simp add: get_dataset_def cache_get_def cache_set_def soil_opened_def demo_defs Let_def)

section \<open>Properties of the dataset cache\<close>

lemma get_dataset_hit:
  "dataset_cache s (resolve w path) = Some ds \<Longrightarrow> get_dataset w path s = (Inr ds, s)"
  by (simp add: get_dataset_def cache_get_def)

lemma get_dataset_success:
  assumes "get_dataset w path s = (Inr ds, s1)"
  shows "dataset_cache s1 (resolve w path) = Some ds"
    and "opens s1 \<le> Suc (opens s)"
  using assms
  by (auto simp: get_dataset_def cache_get_def cache_set_def Let_def
      split: option.splits sum.splits if_splits)

lemma get_dataset_frame:
  "read_log (snd (get_dataset w path s)) = read_log s"
  "geocode_cache (snd (get_dataset w path s)) = geocode_cache s"
  "GEOLOCATOR_CACHE (snd (get_dataset w path s)) = GEOLOCATOR_CACHE s"
  by (auto simp: get_dataset_def cache_get_def cache_set_def Let_def
      split: option.splits sum.splits if_splits)

lemma get_dataset_again:
  assumes "get_dataset w1 p1 s = (Inr ds, s1)" and "resolve w2 p2 = resolve w1 p1"
  shows "get_dataset w2 p2 s1 = (Inr ds, s1)"
  using get_dataset_success(1) [OF assms(1)] assms(2) by (simp add: get_dataset_hit)

text \<open>
  Claim C2. Two calls of \<^verbatim>\<open>_get_dataset\<close> with spellings of a path that normalise to
  the same string: when the first call returns a handle, the second returns the
  identical handle (the same object, \<open>obj_id\<close> included) and leaves the state as it
  is, so it opens nothing; the first call opened the raster at most once.
\<close>

theorem get_dataset_equivalent_paths:
  assumes "resolve w1 p1 = resolve w2 p2"
    and "get_dataset w1 p1 s = (Inr ds, s1)"
  shows "get_dataset w2 p2 s1 = (Inr ds, s1) \<and> opens s1 \<le> Suc (opens s)"
  using get_dataset_again [OF assms(2)] get_dataset_success(2) [OF assms(2)] assms(1)
  by simp

theorem get_dataset_equivalent_paths_witness:
  "resolve demo_world ''soil.tif'' = resolve demo_world ''~/soil.tif''
   \<and> get_dataset demo_world ''soil.tif'' initial_state = (Inr demo_raster, soil_opened)
   \<and> get_dataset demo_world ''~/soil.tif'' soil_opened = (Inr demo_raster, soil_opened)
   \<and> opens soil_opened \<le> Suc (opens initial_state)"
proof -
  have same: "resolve demo_world ''soil.tif'' = resolve demo_world ''~/soil.tif''"
    by (simp add: demo_world_def)
  note first = demo_get_dataset_soil
  from get_dataset_equivalent_paths [OF same first] same first
  show ?thesis by blast
qed

section \<open>Properties of the point lookup\<close>

lemma np_isclose_refl: "\<not> np_isnan v \<Longrightarrow> np_isclose v v"
  by (cases v) (simp_all add: atol_def rtol_def)

text \<open>
  Claim C1. A point query that reaches the sample and reads the value \<open>v\<close> returns
  \<^verbatim>\<open>None\<close> if the raster declares a nodata sentinel and \<open>v\<close> is close to it
  (\<^verbatim>\<open>np.isclose\<close>), returns \<^verbatim>\<open>None\<close> if \<open>v\<close> is NaN, and returns \<open>v\<close> otherwise. In
  particular a sampled value equal to the sentinel gives \<^verbatim>\<open>None\<close>.
\<close>

theorem get_soil_temperature_nodata_policy:
  assumes "locate w q s = (Inr (lat, lon), s0)"
    and "get_dataset w tif_path s0 = (Inr ds, s1)"
    and "sample ds [(lon, lat)] = (v # bands) # rest"
  shows "get_soil_temperature w q tif_path s =
           (Inr (if (\<exists>sentinel. nodata ds = Some sentinel \<and> np_isclose v sentinel) \<or> np_isnan v
                 then None else Some v), s1)
         \<and> (nodata ds = Some v \<longrightarrow> get_soil_temperature w q tif_path s = (Inr None, s1))"
proof -
  have run: "get_soil_temperature w q tif_path s = (Inr (nodata_policy ds v), s1)"
    using assms by (simp add: get_soil_temperature_def)
  have policy: "nodata_policy ds v =
      (if (\<exists>sentinel. nodata ds = Some sentinel \<and> np_isclose v sentinel) \<or> np_isnan v
       then None else Some v)"
    by (cases "nodata ds") (auto simp: nodata_policy_def)
  have "nodata_policy ds v = None" if "nodata ds = Some v"
    using that np_isclose_refl [of v] by (auto simp: nodata_policy_def)
  with run policy show ?thesis by simp
qed

theorem get_soil_temperature_nodata_policy_witness:
  "get_soil_temperature demo_world (Coord (Finite (11 / 2)) (Finite (11 / 2))) ''soil.tif''
       initial_state = (Inr (Some (Finite (31 / 2))), soil_opened)
   \<and> get_soil_temperature demo_world (Coord (Finite 20) (Finite 20)) ''soil.tif''
       initial_state = (Inr None, soil_opened)"
proof -
  have loc: "locate demo_world (Coord lat lon) initial_state = (Inr (lat, lon), initial_state)"
    for lat lon by (simp add: locate_def)
  note ds = demo_get_dataset_soil
  have smp1: "sample demo_raster [(Finite (11 / 2), Finite (11 / 2))] = (Finite (31 / 2) # []) # []"
    by (simp add: demo_defs)
  have smp2: "sample demo_raster [(Finite 20, Finite 20)] = (Finite (- 9999) # []) # []"
    by (simp add: demo_defs)
  have nd: "nodata demo_raster = Some (Finite (- 9999))"
    by (simp add: demo_defs)
  from get_soil_temperature_nodata_policy [OF loc ds smp1]
       get_soil_temperature_nodata_policy [OF loc ds smp2] nd
  show ?thesis by (simp add: atol_def rtol_def)
qed

section \<open>Properties of the bounding-box lookup\<close>

lemma get_dataset_read_log:
  "get_dataset w path s = (r, s1) \<Longrightarrow> read_log s1 = read_log s"
  using get_dataset_frame(1) [of w path s] by simp

text \<open>
  Claim C3. When the dataset is acquired and the box lies entirely outside the
  raster's bounds (east edge west of the left bound, or west edge east of the right
  bound, or north edge south of the bottom bound, or south edge north of the top
  bound), \<^verbatim>\<open>get_soil_temperatures_in_bbox\<close> returns \<^verbatim>\<open>None\<close> and the log of windowed
  reads is what it was before the call.
\<close>

theorem bbox_fast_reject:
  assumes "get_dataset w tif_path s = (Inr ds, s1)"
    and "float_less east (left (bounds ds)) \<or> float_greater west (right (bounds ds)) \<or>
         float_less north (bottom (bounds ds)) \<or> float_greater south (top (bounds ds))"
  shows "get_soil_temperatures_in_bbox w (south, west, north, east) tif_path masked s =
           (Inr None, s1)
         \<and> read_log s1 = read_log s"
  using assms get_dataset_read_log [OF assms(1)]
  by (simp add: get_soil_temperatures_in_bbox_def)

theorem bbox_fast_reject_witness:
  "get_soil_temperatures_in_bbox demo_world (Finite 30, Finite 30, Finite 40, Finite 40)
       ''soil.tif'' False initial_state = (Inr None, soil_opened)
   \<and> read_log soil_opened = read_log initial_state"
proof -
  have out: "float_less (Finite 40) (left (bounds demo_raster)) \<or>
      float_greater (Finite 30) (right (bounds demo_raster)) \<or>
      float_less (Finite 40) (bottom (bounds demo_raster)) \<or>
      float_greater (Finite 30) (top (bounds demo_raster))"
    by (simp add: demo_raster_def float_greater_def)
  from bbox_fast_reject [OF demo_get_dataset_soil out] show ?thesis .
qed

subsection \<open>The array that is returned\<close>

lemma mask_all_iff:
  "mask_all a \<longleftrightarrow> (\<forall>i<length (cells a). \<forall>j<length (cells a ! i). snd (cells a ! i ! j))"
  by (simp add: mask_all_def list_all_length)

lemma filled_floating:
  "dtype a = Floating \<Longrightarrow>
     filled a x = Inr (map (map (\<lambda>cell. if snd cell then x else fst cell)) (cells a))"
  by (simp add: filled_def check_fill_value_def)

lemma filled_integer_NaN:
  "dtype a = Integer \<Longrightarrow> filled a NaN = Inl TypeError_fill_value"
  by (simp add: filled_def check_fill_value_def)

lemma intersection_Inr:
  assumes "intersection w1 (Window 0 0 W H) = Inr win"
  shows "0 \<le> col_off win" "0 \<le> row_off win" "0 < win_width win" "0 < win_height win"
    "col_off win + win_width win \<le> W" "row_off win + win_height win \<le> H"
    "col_off w1 \<le> col_off win" "row_off w1 \<le> row_off win"
    "col_off win + win_width win \<le> col_off w1 + win_width w1"
    "row_off win + win_height win \<le> row_off w1 + win_height w1"
  using assms
  by (auto simp: intersection_def compute_intersection_def Window_def Let_def split: if_splits)

text \<open>
  A floating-point raster behaves as the docstring says: when the query reads a
  non-empty window, the result is \<^verbatim>\<open>None\<close> if every pixel is masked; otherwise it is
  the masked array itself if \<open>masked\<close> was requested, and else the plain array of the
  same shape with NaN at the masked positions and the pixel value everywhere else.
\<close>

lemma bbox_floating_raster_result:
  assumes "get_dataset w tif_path s = (Inr ds, s1)"
    and "\<not> (float_less east (left (bounds ds)) \<or> float_greater west (right (bounds ds)) \<or>
            float_less north (bottom (bounds ds)) \<or> float_greater south (top (bounds ds)))"
    and "from_bounds w west south east north (transform ds) = Inr window0"
    and "intersection window0 (Window 0 0 (width ds) (height ds)) = Inr win"
    and "read ds win = Inr data"
    and "dtype data = Floating"
  shows "fst (get_soil_temperatures_in_bbox w (south, west, north, east) tif_path masked s) =
           Inr (if \<forall>i<length (cells data). \<forall>j<length (cells data ! i). snd (cells data ! i ! j)
                then None
                else if masked then Some (MaskedArray data)
                else Some (NdArray
                  (map (map (\<lambda>cell. if snd cell then NaN else fst cell)) (cells data))))"
proof -
  have pos: "\<not> (win_width win \<le> 0 \<or> win_height win \<le> 0)"
    using intersection_Inr(3,4) [OF assms(4)] by simp
  have "fst (get_soil_temperatures_in_bbox w (south, west, north, east) tif_path masked s) =
      Inr (if mask_all data then None
           else if masked then Some (MaskedArray data)
           else Some (NdArray
             (map (map (\<lambda>cell. if snd cell then NaN else fst cell)) (cells data))))"
    using assms(1-5) pos
    by (simp add: get_soil_temperatures_in_bbox_def Let_def filled_floating [OF assms(6)]
        astype_float_def)
  then show ?thesis
    by (simp add: mask_all_iff)
qed

text \<open>
  An integer raster does not: whenever the window read holds a pixel that is not
  masked and \<open>masked\<close> is not requested, \<^verbatim>\<open>data.filled(np.nan)\<close> on line 215 raises
  \<^verbatim>\<open>TypeError\<close>, before \<^verbatim>\<open>astype(float)\<close> is applied. With \<open>masked\<close> requested the
  masked array is returned.
\<close>

lemma bbox_integer_raster_raises:
  assumes "get_dataset w tif_path s = (Inr ds, s1)"
    and "\<not> (float_less east (left (bounds ds)) \<or> float_greater west (right (bounds ds)) \<or>
            float_less north (bottom (bounds ds)) \<or> float_greater south (top (bounds ds)))"
    and "from_bounds w west south east north (transform ds) = Inr window0"
    and "intersection window0 (Window 0 0 (width ds) (height ds)) = Inr win"
    and "read ds win = Inr data"
    and "dtype data = Integer"
    and "\<not> mask_all data"
  shows "fst (get_soil_temperatures_in_bbox w (south, west, north, east) tif_path False s) =
           Inl TypeError_fill_value"
    and "fst (get_soil_temperatures_in_bbox w (south, west, north, east) tif_path True s) =
           Inr (Some (MaskedArray data))"
proof -
  have pos: "\<not> (win_width win \<le> 0 \<or> win_height win \<le> 0)"
    using intersection_Inr(3,4) [OF assms(4)] by simp
  show "fst (get_soil_temperatures_in_bbox w (south, west, north, east) tif_path False s) =
      Inl TypeError_fill_value"
    using assms(1-5,7) pos
    by (simp add: get_soil_temperatures_in_bbox_def Let_def filled_integer_NaN [OF assms(6)])
  show "fst (get_soil_temperatures_in_bbox w (south, west, north, east) tif_path True s) =
      Inr (Some (MaskedArray data))"
    using assms(1-5,7) pos
    by (simp add: get_soil_temperatures_in_bbox_def Let_def)
qed

lemma demo_not_rejected:
  "\<not> (float_less (Finite 2) (left (bounds demo_raster)) \<or>
      float_greater (Finite 0) (right (bounds demo_raster)) \<or>
      float_less (Finite 10) (bottom (bounds demo_raster)) \<or>
      float_greater (Finite 8) (top (bounds demo_raster)))"
  by (simp add: demo_raster_def float_greater_def)

lemma demo_window:
  "from_bounds demo_world (Finite 0) (Finite 8) (Finite 2) (Finite 10) (transform demo_raster)
     = Inr (Window 0 0 2 2)"
  by (simp add: demo_world_def demo_raster_def)

lemma demo_intersection:
  "intersection (Window 0 0 2 2) (Window 0 0 (width demo_raster) (height demo_raster))
     = Inr (Window 0 0 2 2)"
  by (simp add: intersection_def compute_intersection_def Window_def demo_raster_def)

lemma demo_read_corner:
  "demo_read t (Window 0 0 2 2) =
     Inr \<lparr>dtype = t,
          cells = [[(Finite (- 9999), True), (Finite 7, False)],
                   [(Finite (- 9999), True), (Finite 7, False)]]\<rparr>"
  by (simp add: demo_read_def Window_def demo_cell_def upto.simps)

lemma demo_floating_corner:
  "fst (get_soil_temperatures_in_bbox demo_world (Finite 8, Finite 0, Finite 10, Finite 2)
       ''soil.tif'' False initial_state) = Inr (Some (NdArray [[NaN, Finite 7], [NaN, Finite 7]]))"
proof -
  have rd: "read demo_raster (Window 0 0 2 2) =
      Inr \<lparr>dtype = Floating,
           cells = [[(Finite (- 9999), True), (Finite 7, False)],
                    [(Finite (- 9999), True), (Finite 7, False)]]\<rparr>"
    by (simp add: demo_raster_def demo_read_corner)
  have some: "\<not> mask_all \<lparr>dtype = Floating,
           cells = [[(Finite (- 9999), True), (Finite 7, False)],
                    [(Finite (- 9999), True), (Finite 7, False)]]\<rparr>"
    by (simp add: mask_all_def)
  from bbox_floating_raster_result [OF demo_get_dataset_soil demo_not_rejected demo_window
    demo_intersection rd, of False] some
  show ?thesis by (simp add: mask_all_iff)
qed

lemma demo_get_dataset_int16:
  "get_dataset demo_world ''int16.tif'' initial_state =
     (Inr (demo_raster\<lparr>read := demo_read Integer\<rparr>), int16_opened)"
  by (simp add: get_dataset_def cache_get_def cache_set_def int16_opened_def demo_defs Let_def)

text \<open>
  Claim C5. The claim holds for a floating-point raster
  (\<open>bbox_floating_raster_result\<close>), and for every raster when all pixels are masked
  or \<open>masked\<close> is requested. For an integer raster and \<open>masked\<close> not requested the
  code does not return the NaN-filled array that the claim and the docstring
  promise: \<^verbatim>\<open>data.filled(np.nan)\<close> raises \<^verbatim>\<open>TypeError\<close>, because NaN is no integer, and
  \<^verbatim>\<open>astype(float)\<close> comes too late (\<open>bbox_integer_raster_raises\<close>). The theorem evaluates
  the call on the example raster with an integer band for the box (south 8, west 0,
  north 10, east 2): the window read is \<^verbatim>\<open>Window(0, 0, 2, 2)\<close>, it holds two masked
  and two valid pixels, and the call raises \<^verbatim>\<open>TypeError\<close>.
\<close>

theorem bbox_integer_raster_fill_raises:
  "read (demo_raster\<lparr>read := demo_read Integer\<rparr>) (Window 0 0 2 2) =
     Inr \<lparr>dtype = Integer,
          cells = [[(Finite (- 9999), True), (Finite 7, False)],
                   [(Finite (- 9999), True), (Finite 7, False)]]\<rparr>
   \<and> get_soil_temperatures_in_bbox demo_world (Finite 8, Finite 0, Finite 10, Finite 2)
       ''int16.tif'' False initial_state =
     (Inl TypeError_fill_value,
      int16_opened\<lparr>read_log := [(0, Window 0 0 2 2)]\<rparr>)"
proof -
  have rd: "read (demo_raster\<lparr>read := demo_read Integer\<rparr>) (Window 0 0 2 2) =
      Inr \<lparr>dtype = Integer,
           cells = [[(Finite (- 9999), True), (Finite 7, False)],
                    [(Finite (- 9999), True), (Finite 7, False)]]\<rparr>"
    by (simp add: demo_read_corner)
  have attrs: "bounds (demo_raster\<lparr>read := demo_read Integer\<rparr>) = bounds demo_raster"
    "transform (demo_raster\<lparr>read := demo_read Integer\<rparr>) = transform demo_raster"
    "width (demo_raster\<lparr>read := demo_read Integer\<rparr>) = width demo_raster"
    "height (demo_raster\<lparr>read := demo_read Integer\<rparr>) = height demo_raster"
    "obj_id (demo_raster\<lparr>read := demo_read Integer\<rparr>) = 0"
    by (simp_all add: demo_raster_def)
  have log: "read_log int16_opened = []"
    by (simp add: int16_opened_def initial_state_def)
  have valid: "\<not> mask_all \<lparr>dtype = Integer,
           cells = [[(Finite (- 9999), True), (Finite 7, False)],
                    [(Finite (- 9999), True), (Finite 7, False)]]\<rparr>"
    by (simp add: mask_all_def)
  have pos: "\<not> (win_width (Window 0 0 2 2) \<le> 0 \<or> win_height (Window 0 0 2 2) \<le> 0)"
    by (simp add: Window_def)
  have "get_soil_temperatures_in_bbox demo_world (Finite 8, Finite 0, Finite 10, Finite 2)
       ''int16.tif'' False initial_state =
     (Inl TypeError_fill_value, int16_opened\<lparr>read_log := [(0, Window 0 0 2 2)]\<rparr>)"
    using demo_not_rejected
    by (simp add: get_soil_temperatures_in_bbox_def demo_get_dataset_int16 attrs demo_window
        demo_intersection demo_read_corner valid pos log filled_integer_NaN Let_def)
  with rd show ?thesis ..
qed

section \<open>The cache invariant\<close>

subsection \<open>What each function leaves untouched\<close>

lemma geocode_frame:
  "dataset_cache (snd (geocode w a s)) = dataset_cache s"
  "next_obj (snd (geocode w a s)) = next_obj s"
  "opens (snd (geocode w a s)) = opens s"
  "read_log (snd (geocode w a s)) = read_log s"
  by (auto simp: geocode_def geocode_body_def Let_def split: option.splits sum.splits prod.splits)

lemma locate_frame:
  "dataset_cache (snd (locate w q s)) = dataset_cache s"
  "next_obj (snd (locate w q s)) = next_obj s"
  "opens (snd (locate w q s)) = opens s"
  "read_log (snd (locate w q s)) = read_log s"
  by (cases q; simp add: locate_def geocode_frame)+

lemma get_soil_temperature_state:
  "snd (get_soil_temperature w q path s) =
     (case fst (locate w q s) of
        Inl e \<Rightarrow> snd (locate w q s)
      | Inr c \<Rightarrow> snd (get_dataset w path (snd (locate w q s))))"
  by (auto simp: get_soil_temperature_def split: prod.splits sum.splits list.splits)

lemma bbox_state:
  "\<exists>log. snd (get_soil_temperatures_in_bbox w b path m s) =
     (snd (get_dataset w path s))\<lparr>read_log := log\<rparr>"
proof -
  have same: "\<exists>log. t = t\<lparr>read_log := log\<rparr>" for t :: state
    by (rule exI [of _ "read_log t"]) simp
  show ?thesis
    by (cases b)
      (auto simp: get_soil_temperatures_in_bbox_def Let_def same
        split: prod.splits sum.splits if_splits)
qed

subsection \<open>Preservation\<close>

lemma geographic_WarpedVRT: "geographic (WarpedVRT w base EPSG_4326 i)"
  by (simp add: geographic_def WarpedVRT_def EPSG_4326_def)

lemma cache_inv_initial: "cache_inv initial_state"
  by (simp add: cache_inv_def initial_state_def)

lemma cache_inv_get_dataset:
  assumes "cache_inv s"
  shows "cache_inv (snd (get_dataset w path s))"
proof (cases "cache_get s (resolve w path)")
  case (Some ds)
  then show ?thesis using assms by (simp add: get_dataset_def)
next
  case None
  show ?thesis
  proof (cases "rasterio_open w (resolve w path)")
    case (Inl e)
    with None assms show ?thesis
      by (simp add: get_dataset_def cache_inv_def)
  next
    case (Inr opened)
    show ?thesis
    proof (cases "crs opened")
      case None
      with \<open>cache_get s (resolve w path) = None\<close> Inr assms show ?thesis
        by (auto simp: get_dataset_def cache_inv_def Let_def less_Suc_eq)
    next
      case (Some c)
      have old: "obj_id ds < next_obj s" "geographic ds"
        if "dataset_cache s p = Some ds" for p ds
        using assms that by (auto simp: cache_inv_def)
      have inj: "obj_id ds \<noteq> obj_id ds'"
        if "dataset_cache s p = Some ds" "dataset_cache s q = Some ds'" "p \<noteq> q" for p q ds ds'
        using assms that unfolding cache_inv_def by blast
      show ?thesis
      proof (cases "to_epsg c = Some 4326")
        case True
        have geo: "geographic (opened\<lparr>obj_id := next_obj s\<rparr>)"
          using Some True by (simp add: geographic_def)
        have st: "snd (get_dataset w path s) =
            cache_set (resolve w path) (opened\<lparr>obj_id := next_obj s\<rparr>)
              (s\<lparr>opens := Suc (opens s), next_obj := Suc (next_obj s)\<rparr>)"
          using \<open>cache_get s (resolve w path) = None\<close> Inr Some True
          by (simp add: get_dataset_def Let_def)
        show ?thesis
          unfolding st cache_inv_def cache_set_def
          using geo old inj by (auto simp: less_Suc_eq dest: old(1))
      next
        case False
        have st: "snd (get_dataset w path s) =
            cache_set (resolve w path)
              (WarpedVRT w (opened\<lparr>obj_id := next_obj s\<rparr>) EPSG_4326 (Suc (next_obj s)))
              (s\<lparr>opens := Suc (opens s), next_obj := Suc (Suc (next_obj s))\<rparr>)"
          using \<open>cache_get s (resolve w path) = None\<close> Inr Some False
          by (simp add: get_dataset_def Let_def)
        have id: "obj_id (WarpedVRT w b EPSG_4326 i) = i" for b i
          by (simp add: WarpedVRT_def)
        show ?thesis
          unfolding st cache_inv_def cache_set_def
          using geographic_WarpedVRT old inj by (auto simp: less_Suc_eq id dest: old(1))
      qed
    qed
  qed
qed

lemma cache_inv_frame:
  assumes "cache_inv s" "dataset_cache t = dataset_cache s" "next_obj t = next_obj s"
  shows "cache_inv t"
  using assms by (simp add: cache_inv_def)

lemma cache_inv_exec:
  assumes "cache_inv s"
  shows "cache_inv (exec w c s)"
proof (cases c)
  case (Get_dataset path)
  then show ?thesis using assms by (simp add: cache_inv_get_dataset)
next
  case (Geocode a)
  then show ?thesis using assms by (simp add: cache_inv_frame [OF assms] geocode_frame)
next
  case (Get_soil_temperature q path)
  have loc: "cache_inv (snd (locate w q s))"
    by (rule cache_inv_frame [OF assms]) (simp_all add: locate_frame)
  show ?thesis
    using Get_soil_temperature loc cache_inv_get_dataset [OF loc]
    by (simp add: get_soil_temperature_state split: sum.splits)
next
  case (Get_soil_temperatures_in_bbox b path m)
  obtain log where "snd (get_soil_temperatures_in_bbox w b path m s) =
      (snd (get_dataset w path s))\<lparr>read_log := log\<rparr>"
    using bbox_state by blast
  with Get_soil_temperatures_in_bbox cache_inv_get_dataset [OF assms, of w path]
  show ?thesis by (simp add: cache_inv_def)
qed

lemma cache_inv_run: "cache_inv s \<Longrightarrow> cache_inv (run cs s)"
  by (induction cs arbitrary: s) (auto simp: cache_inv_exec)

lemma cache_inv_reachable: "cache_inv (run cs initial_state)"
  by (simp add: cache_inv_run cache_inv_initial)


subsection \<open>Stored handles\<close>

lemma get_dataset_keeps:
  "dataset_cache s p = Some ds \<Longrightarrow> dataset_cache (snd (get_dataset w path s)) p = Some ds"
  by (auto simp: get_dataset_def cache_get_def cache_set_def Let_def
      split: option.splits sum.splits)

lemma exec_keeps:
  assumes "dataset_cache s p = Some ds"
  shows "dataset_cache (exec w c s) p = Some ds"
proof (cases c)
  case (Get_dataset path)
  then show ?thesis using assms by (simp add: get_dataset_keeps)
next
  case (Geocode a)
  then show ?thesis using assms by (simp add: geocode_frame)
next
  case (Get_soil_temperature q path)
  have "dataset_cache (snd (locate w q s)) p = Some ds"
    using assms by (simp add: locate_frame)
  then show ?thesis
    using Get_soil_temperature
    by (simp add: get_soil_temperature_state get_dataset_keeps split: sum.splits)
next
  case (Get_soil_temperatures_in_bbox b path m)
  obtain log where "snd (get_soil_temperatures_in_bbox w b path m s) =
      (snd (get_dataset w path s))\<lparr>read_log := log\<rparr>"
    using bbox_state by blast
  with Get_soil_temperatures_in_bbox get_dataset_keeps [OF assms, of w path]
  show ?thesis by simp
qed

lemma get_dataset_wraps:
  assumes "cache_get s (resolve w path) = None"
    and "rasterio_open w (resolve w path) = Inr opened"
    and "crs opened = Some c" and "to_epsg c \<noteq> Some 4326"
  shows "fst (get_dataset w path s) =
           Inr (WarpedVRT w (opened\<lparr>obj_id := next_obj s\<rparr>) EPSG_4326 (Suc (next_obj s)))"
  using assms by (simp add: get_dataset_def Let_def)

text \<open>
  Claim C6. In every state that a sequence of calls reaches from the initial state:
  every handle in the dataset cache reports EPSG:4326; handles stored under
  different normalised paths are different objects; no later call replaces or
  removes a stored handle, so a normalised path has one handle for the life of the
  process; a handle that \<^verbatim>\<open>_get_dataset\<close> returns is geographic and is the one stored
  under the normalised path; and on a miss a raster whose CRS is not EPSG:4326 is
  returned and stored as a \<^verbatim>\<open>WarpedVRT\<close> over it, never as itself.
\<close>

theorem dataset_cache_invariant:
  "let s = run cs initial_state in
     (\<forall>p ds. dataset_cache s p = Some ds \<longrightarrow> geographic ds)
   \<and> (\<forall>p q ds ds'. dataset_cache s p = Some ds \<and> dataset_cache s q = Some ds' \<and> p \<noteq> q
         \<longrightarrow> obj_id ds \<noteq> obj_id ds')
   \<and> (\<forall>w c p ds. dataset_cache s p = Some ds \<longrightarrow> dataset_cache (exec w c s) p = Some ds)
   \<and> (\<forall>w path ds s'. get_dataset w path s = (Inr ds, s')
         \<longrightarrow> geographic ds \<and> dataset_cache s' (resolve w path) = Some ds)
   \<and> (\<forall>w path opened c.
         cache_get s (resolve w path) = None \<and> rasterio_open w (resolve w path) = Inr opened \<and>
         crs opened = Some c \<and> to_epsg c \<noteq> Some 4326
         \<longrightarrow> fst (get_dataset w path s) =
               Inr (WarpedVRT w (opened\<lparr>obj_id := next_obj s\<rparr>) EPSG_4326 (Suc (next_obj s))))"
proof -
  define s where "s = run cs initial_state"
  have inv: "cache_inv s"
    unfolding s_def by (rule cache_inv_reachable)
  have geo: "geographic ds" if "dataset_cache s p = Some ds" for p ds
    using inv that by (auto simp: cache_inv_def)
  have inj: "obj_id ds \<noteq> obj_id ds'"
    if "dataset_cache s p = Some ds \<and> dataset_cache s q = Some ds' \<and> p \<noteq> q" for p q ds ds'
    using inv that unfolding cache_inv_def by blast
  have ret: "geographic ds \<and> dataset_cache s' (resolve w path) = Some ds"
    if "get_dataset w path s = (Inr ds, s')" for w path ds s'
  proof -
    have stored: "dataset_cache s' (resolve w path) = Some ds"
      by (rule get_dataset_success(1) [OF that])
    have "cache_inv s'"
      using cache_inv_get_dataset [OF inv, of w path] that by simp
    with stored show ?thesis by (auto simp: cache_inv_def)
  qed
  show ?thesis
    unfolding Let_def s_def [symmetric]
    using geo inj ret exec_keeps get_dataset_wraps by blast
qed

lemma demo_run_utm:
  "dataset_cache (run [(demo_world, Get_dataset ''utm.tif'')] initial_state) ''/home/user/utm.tif''
     = Some demo_utm_vrt"
  by (simp add: get_dataset_def cache_get_def cache_set_def demo_utm_vrt_def demo_defs Let_def)

theorem dataset_cache_invariant_witness:
  "dataset_cache (run [(demo_world, Get_dataset ''utm.tif'')] initial_state) ''/home/user/utm.tif''
     = Some demo_utm_vrt
   \<and> geographic demo_utm_vrt
   \<and> dataset_cache (exec demo_world (Get_dataset ''soil.tif'')
        (run [(demo_world, Get_dataset ''utm.tif'')] initial_state)) ''/home/user/utm.tif''
     = Some demo_utm_vrt"
  using dataset_cache_invariant [of "[(demo_world, Get_dataset ''utm.tif'')]"] demo_run_utm
  unfolding Let_def by blast


subsection \<open>Rasters without a CRS\<close>

lemma geographic_crs: "geographic ds \<Longrightarrow> crs ds \<noteq> None"
  by (auto simp: geographic_def split: option.splits)

text \<open>
  Claim C7. On a cache miss, when the raster that \<^verbatim>\<open>rasterio.open\<close> returns has no
  CRS, \<^verbatim>\<open>_get_dataset\<close> raises the \<^verbatim>\<open>RuntimeError\<close> of line 60 and the dataset cache is
  left as it was (the state changes in its counters only); and in no state that a
  sequence of calls reaches does the cache hold a handle without a CRS.
\<close>

theorem get_dataset_no_crs:
  "(cache_get s (resolve w path) = None \<and> rasterio_open w (resolve w path) = Inr opened \<and>
    crs opened = None
      \<longrightarrow> get_dataset w path s =
            (Inl RuntimeError_no_CRS, s\<lparr>opens := Suc (opens s), next_obj := Suc (next_obj s)\<rparr>)
          \<and> dataset_cache (snd (get_dataset w path s)) = dataset_cache s)
   \<and> (dataset_cache (run cs initial_state) p = Some ds \<longrightarrow> crs ds \<noteq> None)"
proof -
  have "geographic ds" if "dataset_cache (run cs initial_state) p = Some ds"
    using cache_inv_reachable [of cs] that by (auto simp: cache_inv_def)
  then show ?thesis
    by (auto simp: get_dataset_def Let_def dest: geographic_crs)
qed

theorem get_dataset_no_crs_witness:
  "get_dataset demo_world ''nocrs.tif'' initial_state =
     (Inl RuntimeError_no_CRS, initial_state\<lparr>opens := 1, next_obj := 1\<rparr>)
   \<and> crs demo_utm_vrt \<noteq> None"
proof -
  have miss: "cache_get initial_state (resolve demo_world ''nocrs.tif'') = None"
    by (simp add: cache_get_def initial_state_def)
  have opened: "rasterio_open demo_world (resolve demo_world ''nocrs.tif'') =
      Inr (demo_raster\<lparr>crs := None\<rparr>)"
    by (simp add: demo_world_def demo_open_def)
  have none: "crs (demo_raster\<lparr>crs := None\<rparr>) = None"
    by simp
  have counters: "opens initial_state = 0" "next_obj initial_state = 0"
    by (simp_all add: initial_state_def)
  from get_dataset_no_crs [of initial_state demo_world "''nocrs.tif''"
      "demo_raster\<lparr>crs := None\<rparr>" "[(demo_world, Get_dataset ''utm.tif'')]"
      "''/home/user/utm.tif''" demo_utm_vrt]
    miss opened none demo_run_utm counters
  show ?thesis by simp
qed

section \<open>Errors of the dataset in the bounding-box lookup\<close>

text \<open>
  Claim C10. \<^verbatim>\<open>get_soil_temperatures_in_bbox\<close> acquires the dataset before it looks
  at the box: whatever the box is, an error of \<^verbatim>\<open>_get_dataset\<close> is the outcome of the
  call; so for a path that is not cached, a raster that cannot be opened raises the
  error of \<^verbatim>\<open>rasterio.open\<close> and a raster without a CRS raises the \<^verbatim>\<open>RuntimeError\<close> of
  line 60, and neither returns \<^verbatim>\<open>None\<close>.
\<close>

theorem bbox_dataset_errors_propagate:
  "(get_dataset w tif_path s = (Inl e, s1)
      \<longrightarrow> get_soil_temperatures_in_bbox w bbox tif_path masked s = (Inl e, s1))
   \<and> (cache_get s (resolve w tif_path) = None \<and> rasterio_open w (resolve w tif_path) = Inl e
      \<longrightarrow> fst (get_soil_temperatures_in_bbox w bbox tif_path masked s) = Inl e)
   \<and> (cache_get s (resolve w tif_path) = None \<and>
      rasterio_open w (resolve w tif_path) = Inr opened \<and> crs opened = None
      \<longrightarrow> fst (get_soil_temperatures_in_bbox w bbox tif_path masked s) = Inl RuntimeError_no_CRS)"
proof -
  have pass: "get_soil_temperatures_in_bbox w bbox tif_path masked s = (Inl e', s')"
    if "get_dataset w tif_path s = (Inl e', s')" for e' s'
    using that by (cases bbox) (simp add: get_soil_temperatures_in_bbox_def)
  have open_fails: "fst (get_dataset w tif_path s) = Inl e"
    if "cache_get s (resolve w tif_path) = None" "rasterio_open w (resolve w tif_path) = Inl e"
    using that by (simp add: get_dataset_def)
  have no_crs: "fst (get_dataset w tif_path s) = Inl RuntimeError_no_CRS"
    if "cache_get s (resolve w tif_path) = None"
      "rasterio_open w (resolve w tif_path) = Inr opened" "crs opened = None"
    using that by (simp add: get_dataset_def Let_def)
  have lift: "fst (get_soil_temperatures_in_bbox w bbox tif_path masked s) = Inl e'"
    if "fst (get_dataset w tif_path s) = Inl e'" for e'
    using pass [of e' "snd (get_dataset w tif_path s)"] that
    by (cases "get_dataset w tif_path s") simp
  show ?thesis
    using pass open_fails no_crs lift by blast
qed

theorem bbox_dataset_errors_propagate_witness:
  "fst (get_soil_temperatures_in_bbox demo_world (Finite 30, Finite 30, Finite 40, Finite 40)
      ''missing.tif'' False initial_state) = Inl (RasterioIOError ''/home/user/missing.tif'')
   \<and> fst (get_soil_temperatures_in_bbox demo_world (Finite 30, Finite 30, Finite 40, Finite 40)
      ''nocrs.tif'' False initial_state) = Inl RuntimeError_no_CRS"
proof -
  have miss: "cache_get initial_state p = None" for p
    by (simp add: cache_get_def initial_state_def)
  have missing: "rasterio_open demo_world (resolve demo_world ''missing.tif'') =
      Inl (RasterioIOError ''/home/user/missing.tif'')"
    by (simp add: demo_world_def demo_open_def)
  have opened: "rasterio_open demo_world (resolve demo_world ''nocrs.tif'') =
      Inr (demo_raster\<lparr>crs := None\<rparr>)"
    by (simp add: demo_world_def demo_open_def)
  have none: "crs (demo_raster\<lparr>crs := None\<rparr>) = None"
    by simp
  from bbox_dataset_errors_propagate [of demo_world "''missing.tif''" initial_state
      "RasterioIOError ''/home/user/missing.tif''" _ _ _ "demo_raster\<lparr>crs := None\<rparr>"]
    bbox_dataset_errors_propagate [of demo_world "''nocrs.tif''" initial_state
      _ _ _ _ "demo_raster\<lparr>crs := None\<rparr>"]
    miss missing opened none
  show ?thesis by blast
qed

section \<open>Repeating a point lookup\<close>

lemma get_dataset_fails_again:
  assumes "get_dataset w path s = (Inl e, s1)"
  shows "fst (get_dataset w path s1) = Inl e"
  using assms
  by (auto simp: get_dataset_def cache_get_def cache_set_def Let_def
      split: option.splits sum.splits if_splits)

lemma point_lookup_coord:
  "get_soil_temperature w (Coord lat lon) path s =
     (case get_dataset w path s of
        (Inl e, s1) \<Rightarrow> (Inl e, s1)
      | (Inr ds, s1) \<Rightarrow>
          (case sample ds [(lon, lat)] of
             [] \<Rightarrow> (Inr None, s1)
           | arr # _ \<Rightarrow>
               (case arr of [] \<Rightarrow> (Inl IndexError, s1)
                | v # _ \<Rightarrow> (Inr (nodata_policy ds v), s1))))"
  by (simp add: get_soil_temperature_def locate_def)

text \<open>
  Claim C9. Two calls of \<^verbatim>\<open>get_soil_temperature\<close> in a row with the same coordinate
  pair and the same raster path, in the same world, have the same outcome (the same
  value, \<^verbatim>\<open>None\<close> both times, or the same exception); and when the first call returns,
  the second leaves the state as the first left it, so the two calls together call
  \<^verbatim>\<open>rasterio.open\<close> at most once.
\<close>

theorem get_soil_temperature_idempotent:
  assumes "get_soil_temperature w (Coord lat lon) tif_path s = (r1, s1)"
    and "get_soil_temperature w (Coord lat lon) tif_path s1 = (r2, s2)"
  shows "r2 = r1 \<and> (\<forall>v. r1 = Inr v \<longrightarrow> s2 = s1 \<and> opens s2 \<le> Suc (opens s))"
proof (cases "get_dataset w tif_path s")
  case (Pair d t)
  show ?thesis
  proof (cases d)
    case (Inl e)
    with Pair assms(1) have first: "r1 = Inl e" "s1 = t"
      by (simp_all add: point_lookup_coord)
    have "fst (get_dataset w tif_path s1) = Inl e"
      using get_dataset_fails_again Pair Inl first(2) by blast
    then have "r2 = Inl e"
      using assms(2) by (auto simp: point_lookup_coord split: prod.splits sum.splits)
    with first show ?thesis by simp
  next
    case (Inr ds)
    with Pair have acq: "get_dataset w tif_path s = (Inr ds, t)" by simp
    have again: "get_dataset w tif_path t = (Inr ds, t)"
      by (rule get_dataset_again [OF acq refl])
    have s1: "s1 = t"
      using assms(1) acq by (auto simp: point_lookup_coord split: list.splits)
    have "(r2, s2) = (r1, s1)"
      using assms acq again unfolding s1 by (simp add: point_lookup_coord)
    moreover have "opens t \<le> Suc (opens s)"
      by (rule get_dataset_success(2) [OF acq])
    ultimately show ?thesis using s1 by simp
  qed
qed

lemma demo_point_lookup_cached:
  "get_soil_temperature demo_world (Coord (Finite (11 / 2)) (Finite (11 / 2))) ''soil.tif''
     soil_opened = (Inr (Some (Finite (31 / 2))), soil_opened)"
proof -
  have hit: "get_dataset demo_world ''soil.tif'' soil_opened = (Inr demo_raster, soil_opened)"
    by (rule get_dataset_again [OF demo_get_dataset_soil refl])
  have smp: "sample demo_raster [(Finite (11 / 2), Finite (11 / 2))] = [[Finite (31 / 2)]]"
    by (simp add: demo_defs)
  have pol: "nodata_policy demo_raster (Finite (31 / 2)) = Some (Finite (31 / 2))"
    by (simp add: nodata_policy_def demo_raster_def atol_def rtol_def)
  show ?thesis
    by (simp add: point_lookup_coord hit smp pol)
qed

lemma demo_point_lookup_first:
  "get_soil_temperature demo_world (Coord (Finite (11 / 2)) (Finite (11 / 2))) ''soil.tif''
     initial_state = (Inr (Some (Finite (31 / 2))), soil_opened)"
proof -
  have smp: "sample demo_raster [(Finite (11 / 2), Finite (11 / 2))] = [[Finite (31 / 2)]]"
    by (simp add: demo_defs)
  have pol: "nodata_policy demo_raster (Finite (31 / 2)) = Some (Finite (31 / 2))"
    by (simp add: nodata_policy_def demo_raster_def atol_def rtol_def)
  show ?thesis
    by (simp add: point_lookup_coord demo_get_dataset_soil smp pol)
qed

theorem get_soil_temperature_idempotent_witness:
  "get_soil_temperature demo_world (Coord (Finite (11 / 2)) (Finite (11 / 2))) ''soil.tif''
     initial_state = (Inr (Some (Finite (31 / 2))), soil_opened)
   \<and> get_soil_temperature demo_world (Coord (Finite (11 / 2)) (Finite (11 / 2))) ''soil.tif''
     soil_opened = (Inr (Some (Finite (31 / 2))), soil_opened)
   \<and> opens soil_opened \<le> Suc (opens initial_state)"
  using get_soil_temperature_idempotent [OF demo_point_lookup_first demo_point_lookup_cached]
    demo_point_lookup_first demo_point_lookup_cached
  by simp

section \<open>Errors of the geocoder\<close>

lemma geocode_no_backend:
  assumes "Nominatim w = None" "geocode_cache s = []"
  shows "geocode w address s = (Inl RuntimeError_geopy_required, s)"
  using assms by (simp add: geocode_def geocode_body_def)

lemma geocode_not_found:
  assumes "Nominatim w = Some mk" "map_of (geocode_cache s) address = None"
    and "(case GEOLOCATOR_CACHE s ''nominatim'' of None \<Rightarrow> mk ''soil-temp-lookup'' | Some g \<Rightarrow> g)
           address = Inr None"
  shows "fst (geocode w address s) = Inl (ValueError_address_not_found address)"
  using assms
  by (auto simp: geocode_def geocode_body_def Let_def split: option.splits)

lemma point_lookup_geocode_error:
  assumes "fst (geocode w address s) = Inl e"
  shows "fst (get_soil_temperature w (Address address) tif_path s) = Inl e"
  using assms
  by (cases "geocode w address s") (simp add: get_soil_temperature_def locate_def)

lemma exec_no_backend:
  assumes "Nominatim w = None" "geocode_cache s = []"
  shows "geocode_cache (exec w c s) = []"
proof (cases c)
  case (Get_dataset path)
  then show ?thesis using assms by (simp add: get_dataset_frame)
next
  case (Geocode a)
  then show ?thesis using assms by (simp add: geocode_no_backend)
next
  case (Get_soil_temperature q path)
  have "geocode_cache (snd (locate w q s)) = []"
    using assms by (cases q) (simp_all add: locate_def geocode_no_backend)
  then show ?thesis
    using Get_soil_temperature
    by (simp add: get_soil_temperature_state get_dataset_frame split: sum.splits)
next
  case (Get_soil_temperatures_in_bbox b path m)
  obtain log where "snd (get_soil_temperatures_in_bbox w b path m s) =
      (snd (get_dataset w path s))\<lparr>read_log := log\<rparr>"
    using bbox_state by blast
  with Get_soil_temperatures_in_bbox assms show ?thesis
    by (simp add: get_dataset_frame)
qed

lemma run_no_backend:
  "geocode_cache s = [] \<Longrightarrow> \<forall>wc \<in> set cs. Nominatim (fst wc) = None \<Longrightarrow>
     geocode_cache (run cs s) = []"
  by (induction cs arbitrary: s) (auto simp: exec_no_backend)

text \<open>
  Claim C8. Without a geocoding backend (\<^verbatim>\<open>Nominatim is None\<close> throughout the
  process) \<^verbatim>\<open>_geocode\<close> raises the \<^verbatim>\<open>RuntimeError\<close> of line 90 for every address, and so
  does the point lookup of an address. With a backend, when the address is not
  memoised and the client finds no location for it, \<^verbatim>\<open>_geocode\<close> raises the
  \<^verbatim>\<open>ValueError\<close> of line 97, and so does the point lookup. The two exceptions are
  different, and in both cases the lookup raises: it does not return \<^verbatim>\<open>None\<close>.
\<close>

theorem geocode_errors:
  "(Nominatim w = None \<and> (\<forall>wc \<in> set cs. Nominatim (fst wc) = None)
      \<longrightarrow> geocode w address (run cs initial_state) =
            (Inl RuntimeError_geopy_required, run cs initial_state)
          \<and> get_soil_temperature w (Address address) tif_path (run cs initial_state) =
            (Inl RuntimeError_geopy_required, run cs initial_state))
   \<and> (Nominatim w = Some mk \<and> map_of (geocode_cache s) address = None \<and>
      (case GEOLOCATOR_CACHE s ''nominatim'' of None \<Rightarrow> mk ''soil-temp-lookup'' | Some g \<Rightarrow> g)
         address = Inr None
      \<longrightarrow> fst (geocode w address s) = Inl (ValueError_address_not_found address)
          \<and> fst (get_soil_temperature w (Address address) tif_path s) =
            Inl (ValueError_address_not_found address))
   \<and> RuntimeError_geopy_required \<noteq> ValueError_address_not_found address"
proof -
  have absent: "geocode w address (run cs initial_state) =
        (Inl RuntimeError_geopy_required, run cs initial_state)
      \<and> get_soil_temperature w (Address address) tif_path (run cs initial_state) =
        (Inl RuntimeError_geopy_required, run cs initial_state)"
    if "Nominatim w = None" "\<forall>wc \<in> set cs. Nominatim (fst wc) = None"
  proof -
    have "geocode_cache (run cs initial_state) = []"
      by (rule run_no_backend [OF _ that(2)]) (simp add: initial_state_def)
    then have "geocode w address (run cs initial_state) =
        (Inl RuntimeError_geopy_required, run cs initial_state)"
      by (rule geocode_no_backend [OF that(1)])
    then show ?thesis
      by (simp add: get_soil_temperature_def locate_def)
  qed
  have missing: "fst (geocode w address s) = Inl (ValueError_address_not_found address)
      \<and> fst (get_soil_temperature w (Address address) tif_path s) =
        Inl (ValueError_address_not_found address)"
    if "Nominatim w = Some mk" "map_of (geocode_cache s) address = None"
      "(case GEOLOCATOR_CACHE s ''nominatim'' of None \<Rightarrow> mk ''soil-temp-lookup'' | Some g \<Rightarrow> g)
         address = Inr None"
    using geocode_not_found [OF that] by (simp add: point_lookup_geocode_error)
  have distinct: "RuntimeError_geopy_required \<noteq> ValueError_address_not_found address"
    by simp
  from absent missing distinct show ?thesis by blast
qed


theorem geocode_errors_witness:
  "get_soil_temperature demo_world_no_geopy (Address ''Lagos, Nigeria'') ''soil.tif''
       (run [(demo_world_no_geopy, Geocode ''Lagos, Nigeria'')] initial_state) =
     (Inl RuntimeError_geopy_required,
      run [(demo_world_no_geopy, Geocode ''Lagos, Nigeria'')] initial_state)
   \<and> fst (get_soil_temperature demo_world (Address ''Nowhere'') ''soil.tif'' initial_state) =
       Inl (ValueError_address_not_found ''Nowhere'')"
proof -
  have absent: "Nominatim demo_world_no_geopy = None"
    by (simp add: demo_world_no_geopy_def)
  then have always: "\<forall>wc \<in> set [(demo_world_no_geopy, Geocode ''Lagos, Nigeria'')].
      Nominatim (fst wc) = None"
    by simp
  have present: "Nominatim demo_world = Some demo_geolocator"
    by (simp add: demo_world_def)
  have miss: "map_of (geocode_cache initial_state) ''Nowhere'' = None"
    by (simp add: initial_state_def)
  have unavailable:
    "get_soil_temperature demo_world_no_geopy (Address ''Lagos, Nigeria'') ''soil.tif''
       (run [(demo_world_no_geopy, Geocode ''Lagos, Nigeria'')] initial_state) =
     (Inl RuntimeError_geopy_required,
      run [(demo_world_no_geopy, Geocode ''Lagos, Nigeria'')] initial_state)"
    by (rule geocode_errors [where w = demo_world_no_geopy
          and cs = "[(demo_world_no_geopy, Geocode ''Lagos, Nigeria'')]"
          and mk = demo_geolocator and s = initial_state,
          THEN conjunct1, THEN mp, THEN conjunct2])
      (intro conjI absent always)
  have not_found:
    "fst (get_soil_temperature demo_world (Address ''Nowhere'') ''soil.tif'' initial_state) =
       Inl (ValueError_address_not_found ''Nowhere'')"
    by (rule geocode_errors [where w = demo_world and mk = demo_geolocator
          and s = initial_state and cs = "[]",
          THEN conjunct2, THEN conjunct1, THEN mp, THEN conjunct2])
      (simp add: present miss initial_state_def demo_geolocator_def)
  from unavailable not_found show ?thesis ..
qed

section \<open>The window that is read\<close>

lemma bbox_read_within_extent:
  assumes "get_dataset w tif_path s = (Inr ds, s1)"
  shows "read_log (snd (get_soil_temperatures_in_bbox w bbox tif_path masked s)) = read_log s
       \<or> (\<exists>win. read_log (snd (get_soil_temperatures_in_bbox w bbox tif_path masked s)) =
                  (obj_id ds, win) # read_log s
            \<and> 0 \<le> col_off win \<and> 0 \<le> row_off win \<and> 0 < win_width win \<and> 0 < win_height win
            \<and> col_off win + win_width win \<le> width ds
            \<and> row_off win + win_height win \<le> height ds)"
proof -
  have log: "read_log s1 = read_log s"
    by (rule get_dataset_read_log [OF assms])
  obtain south west north east where bbox: "bbox = (south, west, north, east)"
    by (cases bbox)
  show ?thesis
    using assms log intersection_Inr [of _ "width ds" "height ds"]
    unfolding bbox
    by (auto simp: get_soil_temperatures_in_bbox_def Let_def split: sum.splits)
qed

lemma bbox_empty_intersection:
  assumes "get_dataset w tif_path s = (Inr ds, s1)"
    and "\<not> (float_less east (left (bounds ds)) \<or> float_greater west (right (bounds ds)) \<or>
            float_less north (bottom (bounds ds)) \<or> float_greater south (top (bounds ds)))"
    and "from_bounds w west south east north (transform ds) = Inr window0"
    and "win_width (compute_intersection window0 (Window 0 0 (width ds) (height ds))) \<le> 0 \<or>
         win_height (compute_intersection window0 (Window 0 0 (width ds) (height ds))) \<le> 0"
  shows "get_soil_temperatures_in_bbox w (south, west, north, east) tif_path masked s =
           (Inl WindowError, s1)"
  using assms
  by (auto simp: get_soil_temperatures_in_bbox_def intersection_def Let_def)

lemma bbox_none_after_fast_reject:
  assumes "get_dataset w tif_path s = (Inr ds, s1)"
    and "\<not> (float_less east (left (bounds ds)) \<or> float_greater west (right (bounds ds)) \<or>
            float_less north (bottom (bounds ds)) \<or> float_greater south (top (bounds ds)))"
    and "get_soil_temperatures_in_bbox w (south, west, north, east) tif_path masked s =
           (Inr None, s2)"
  shows "\<exists>win data. read ds win = Inr data \<and> mask_all data \<and>
           s2 = s1\<lparr>read_log := (obj_id ds, win) # read_log s1\<rparr>"
proof -
  have pos: "\<not> win_width win \<le> 0" "\<not> win_height win \<le> 0"
    if "intersection w1 (Window 0 0 (width ds) (height ds)) = Inr win" for w1 win
    using intersection_Inr(3,4) [OF that] by simp_all
  show ?thesis
    using assms
    by (auto simp: get_soil_temperatures_in_bbox_def Let_def pos split: sum.splits if_splits)
qed

text \<open>
  Claim C4. The window of the query is intersected with the full extent
  \<^verbatim>\<open>Window(0, 0, width, height)\<close>, and a window that is read lies inside the raster
  and has positive width and height (\<open>bbox_read_within_extent\<close>). An empty
  intersection, however, never reaches the guard of line 202: \<^verbatim>\<open>Window.intersection\<close>
  raises \<^verbatim>\<open>WindowError\<close> first (\<open>bbox_empty_intersection\<close>), so the call fails where the
  guard would have returned \<^verbatim>\<open>None\<close>. The theorem evaluates the call on the example
  raster for the box (south 10, west 10, north 20, east 20), which meets the raster
  in its north-east corner only: the box passes the fast reject, its pixel window is
  \<^verbatim>\<open>Window(10, -10, 10, 10)\<close>, the intersection with the extent has width 0 and
  height 0, and the call raises \<^verbatim>\<open>WindowError\<close>.
\<close>

theorem bbox_touching_corner_raises:
  "\<not> (float_less (Finite 20) (left (bounds demo_raster)) \<or>
       float_greater (Finite 10) (right (bounds demo_raster)) \<or>
       float_less (Finite 20) (bottom (bounds demo_raster)) \<or>
       float_greater (Finite 10) (top (bounds demo_raster)))
   \<and> from_bounds demo_world (Finite 10) (Finite 10) (Finite 20) (Finite 20)
       (transform demo_raster) = Inr (Window 10 (- 10) 10 10)
   \<and> compute_intersection (Window 10 (- 10) 10 10) (Window 0 0 10 10) = Window 10 0 0 0
   \<and> get_soil_temperatures_in_bbox demo_world (Finite 10, Finite 10, Finite 20, Finite 20)
       ''soil.tif'' False initial_state = (Inl WindowError, soil_opened)"
proof -
  have touching: "\<not> (float_less (Finite 20) (left (bounds demo_raster)) \<or>
       float_greater (Finite 10) (right (bounds demo_raster)) \<or>
       float_less (Finite 20) (bottom (bounds demo_raster)) \<or>
       float_greater (Finite 10) (top (bounds demo_raster)))"
    by (simp add: demo_raster_def float_greater_def)
  have requested: "from_bounds demo_world (Finite 10) (Finite 10) (Finite 20) (Finite 20)
       (transform demo_raster) = Inr (Window 10 (- 10) 10 10)"
    by (simp add: demo_world_def demo_raster_def)
  have extent: "Window 0 0 (width demo_raster) (height demo_raster) = Window 0 0 10 10"
    by (simp add: demo_raster_def)
  have empty: "compute_intersection (Window 10 (- 10) 10 10) (Window 0 0 10 10) = Window 10 0 0 0"
    by (simp add: compute_intersection_def Window_def)
  have raised: "intersection (Window 10 (- 10) 10 10) (Window 0 0 10 10) = Inl WindowError"
    by (simp add: intersection_def empty) (simp add: Window_def)
  have "get_soil_temperatures_in_bbox demo_world (Finite 10, Finite 10, Finite 20, Finite 20)
       ''soil.tif'' False initial_state = (Inl WindowError, soil_opened)"
    using touching
    by (simp add: get_soil_temperatures_in_bbox_def demo_get_dataset_soil requested extent raised)
  with touching requested empty show ?thesis by blast
qed

end
